theory Spec2Isabelle
  imports Main
begin

section \<open>A shallow embedding of \<^verbatim>\<open>gsl::span\<close> (include/span.h)\<close>

text \<open>
  \<^verbatim>\<open>span<ElementType, Extent>\<close> is a pointer to the first element together with an
  element count. The count is either part of the type (\<^verbatim>\<open>Extent >= 0\<close>) or stored in the
  value (\<^verbatim>\<open>Extent == dynamic_extent\<close>). Every member function is \<^verbatim>\<open>const\<close>: it reads
  the view and returns a new value, so each one is a function here. \<^verbatim>\<open>Expects(c)\<close> is
  the contract check of \<^verbatim>\<open>gsl_assert.h\<close>; a failed check is the result
  \<open>Inl ContractViolation\<close>. A template instantiation that the compiler rejects (a failed
  \<^verbatim>\<open>static_assert\<close>, no viable constructor) is the result \<open>Inl IllFormed\<close>: such a
  program never runs.
\<close>

datatype error = ContractViolation | IllFormed

subsection \<open>Indices and pointers\<close>

text \<open>
  \<^verbatim>\<open>index_type\<close> is \<^verbatim>\<open>std::ptrdiff_t\<close>, a 64-bit two's complement integer on the
  targeted platforms. Its values are integers; \<open>ptrdiff_t\<close> is the value that a sum or
  difference computed in that type has (the mathematical result when it is representable,
  the wrapped one otherwise).
\<close>

type_synonym index_type = int

definition dynamic_extent :: index_type where
  "dynamic_extent = -1"

definition ptrdiff_max :: int where
  "ptrdiff_max = 2 ^ 63 - 1"

definition ptrdiff_t :: "int \<Rightarrow> index_type" where
  "ptrdiff_t x = (x + 2 ^ 63) mod 2 ^ 64 - 2 ^ 63"

text \<open>
  A pointer is the address of an element, counted in elements of the pointee type, and
  \<^verbatim>\<open>nullptr\<close> is address 0. \<^verbatim>\<open>p + n\<close> is \<open>ptr_add p n\<close> (the operations add
  offsets that their checks have found non-negative), and
  \<^verbatim>\<open>std::distance(first, last)\<close> on pointers is \<^verbatim>\<open>last - first\<close>. Memory maps an
  address to the element stored there; \<^verbatim>\<open>reinterpret_cast\<close> keeps the address.
\<close>

type_synonym pointer = nat

definition nullptr :: pointer where
  "nullptr = 0"

definition ptr_add :: "pointer \<Rightarrow> index_type \<Rightarrow> pointer" where
  "ptr_add p n = nat (int p + n)"

definition distance :: "pointer \<Rightarrow> pointer \<Rightarrow> index_type" where
  "distance firstElem lastElem = int lastElem - int firstElem"

definition reinterpret_cast :: "pointer \<Rightarrow> pointer" where
  "reinterpret_cast p = p"

type_synonym 'a memory = "pointer \<Rightarrow> 'a"

subsection \<open>\<^verbatim>\<open>extent_type\<close> and \<^verbatim>\<open>storage_type\<close>\<close>

text \<open>
  \<open>extent_fixed E\<close> is the (stateless) instance of the primary template
  \<^verbatim>\<open>extent_type<E>\<close>; \<open>extent_dynamic n\<close> is an instance of the specialisation
  \<^verbatim>\<open>extent_type<dynamic_extent>\<close> with \<^verbatim>\<open>size_ == n\<close>.
\<close>

datatype extent_type = extent_fixed index_type | extent_dynamic index_type

text \<open>\<^verbatim>\<open>extent_type::size()\<close>: the template argument, or the stored \<^verbatim>\<open>size_\<close>.\<close>

fun extent_size :: "extent_type \<Rightarrow> index_type" where
  "extent_size (extent_fixed Extent) = Extent"
| "extent_size (extent_dynamic n) = n"

text \<open>
  The template argument \<^verbatim>\<open>Extent\<close> selects the class: the specialisation for
  \<^verbatim>\<open>dynamic_extent\<close>, otherwise the primary template with its
  \<^verbatim>\<open>static_assert(Extent >= 0)\<close>.
\<close>

definition well_formed_extent :: "index_type \<Rightarrow> bool" where
  "well_formed_extent Extent = (Extent = dynamic_extent \<or> Extent \<ge> 0)"

text \<open>
  \<^verbatim>\<open>extent_type(index_type size)\<close>: the fixed one checks \<^verbatim>\<open>Expects(size == Extent)\<close>,
  the dynamic one stores \<^verbatim>\<open>size\<close> and checks \<^verbatim>\<open>Expects(size >= 0)\<close>.
\<close>

definition extent_type_of_size :: "index_type \<Rightarrow> index_type \<Rightarrow> error + extent_type" where
  "extent_type_of_size Extent size' =
     (if Extent = dynamic_extent then
        (if size' \<ge> 0 then Inr (extent_dynamic size') else Inl ContractViolation)
      else if \<not> Extent \<ge> 0 then Inl IllFormed
      else if size' = Extent then Inr (extent_fixed Extent)
      else Inl ContractViolation)"

text \<open>
  \<^verbatim>\<open>extent_type(extent_type<Other>)\<close> for a fixed \<^verbatim>\<open>Other\<close> (the callers pass
  \<^verbatim>\<open>extent_type<0>()\<close> and \<^verbatim>\<open>extent_type<N>()\<close> with \<^verbatim>\<open>N\<close> a \<^verbatim>\<open>size_t\<close>): the
  dynamic one stores \<^verbatim>\<open>ext.size()\<close> and checks nothing, the fixed one has
  \<^verbatim>\<open>static_assert(Other == Extent)\<close>.
\<close>

definition extent_type_of_extent :: "index_type \<Rightarrow> nat \<Rightarrow> error + extent_type" where
  "extent_type_of_extent Extent Other =
     (if Extent = dynamic_extent then Inr (extent_dynamic (extent_size (extent_fixed (int Other))))
      else if \<not> Extent \<ge> 0 then Inl IllFormed
      else if int Other = Extent then Inr (extent_fixed Extent)
      else Inl IllFormed)"

text \<open>
  The member \<^verbatim>\<open>storage_\<close>: the extent (the base class of \<^verbatim>\<open>storage_type\<close>) and
  \<^verbatim>\<open>data_\<close>. \<open>storage_type\<close> is its constructor
  \<^verbatim>\<open>storage_type(pointer data, OtherExtentType ext) : ExtentType(ext), data_(data)\<close>.
\<close>

record span =
  storage_extent :: extent_type
  storage_data :: pointer

definition storage_type :: "pointer \<Rightarrow> error + extent_type \<Rightarrow> error + span" where
  "storage_type data' ext =
     (case ext of
        Inl e \<Rightarrow> Inl e
      | Inr x \<Rightarrow> Inr \<lparr>storage_extent = x, storage_data = data'\<rparr>)"

subsection \<open>Observers\<close>

definition size_span :: "span \<Rightarrow> index_type" where
  "size_span v = extent_size (storage_extent v)"

definition length_span :: "span \<Rightarrow> index_type" where
  "length_span v = size_span v"

definition empty_span :: "span \<Rightarrow> bool" where
  "empty_span v = (size_span v = 0)"

definition data_span :: "span \<Rightarrow> pointer" where
  "data_span v = storage_data v"

text \<open>The template argument \<^verbatim>\<open>Extent\<close> of the type of a view.\<close>

fun extent_of :: "extent_type \<Rightarrow> index_type" where
  "extent_of (extent_fixed Extent) = Extent"
| "extent_of (extent_dynamic n) = dynamic_extent"

subsection \<open>Constructors\<close>

text \<open>
  Each constructor of \<^verbatim>\<open>span<ElementType, Extent>\<close> takes \<^verbatim>\<open>Extent\<close> as its first
  argument. An array argument is given by the address of its first element and its
  length, a container by \<^verbatim>\<open>cont.data()\<close> and \<^verbatim>\<open>cont.size()\<close> (a \<^verbatim>\<open>size_t\<close>,
  converted to \<^verbatim>\<open>index_type\<close>).
\<close>

definition span_default :: "index_type \<Rightarrow> error + span" where
  "span_default Extent = storage_type nullptr (extent_type_of_extent Extent 0)"

definition span_nullptr :: "index_type \<Rightarrow> error + span" where
  "span_nullptr Extent = span_default Extent"

definition span_ptr_count :: "index_type \<Rightarrow> pointer \<Rightarrow> index_type \<Rightarrow> error + span" where
  "span_ptr_count Extent ptr count =
     (case storage_type ptr (extent_type_of_size Extent count) of
        Inl e \<Rightarrow> Inl e
      | Inr s \<Rightarrow>
          if (ptr = nullptr \<and> count = 0) \<or> (ptr \<noteq> nullptr \<and> count \<ge> 0) then Inr s
          else Inl ContractViolation)"

definition span_ptr_pair :: "index_type \<Rightarrow> pointer \<Rightarrow> pointer \<Rightarrow> error + span" where
  "span_ptr_pair Extent firstElem lastElem =
     storage_type firstElem (extent_type_of_size Extent (distance firstElem lastElem))"

definition span_array :: "index_type \<Rightarrow> pointer \<Rightarrow> nat \<Rightarrow> error + span" where
  "span_array Extent arr N = storage_type arr (extent_type_of_extent Extent N)"

definition span_container :: "index_type \<Rightarrow> pointer \<Rightarrow> nat \<Rightarrow> error + span" where
  "span_container Extent cont_data cont_size =
     span_ptr_count Extent cont_data (ptrdiff_t (int cont_size))"

subsection \<open>Element type conversions\<close>

text \<open>
  A type is a cv-qualified name: one of the standard integer types, a pointer to a type,
  or any other type, given by its name. \<^verbatim>\<open>std::is_pointer\<close> and
  \<^verbatim>\<open>std::is_integral\<close> are read off the name and \<^verbatim>\<open>std::is_same\<close> is equality.
  \<^verbatim>\<open>std::is_convertible\<close>, \<^verbatim>\<open>sizeof\<close> and \<^verbatim>\<open>alignof\<close> belong to the
  implementation, not to this header: they are the fields of \<open>type_traits\<close>, a
  parameter of what follows.
\<close>

datatype cpp_type = Qualified (is_const: bool) (is_volatile: bool) (unqualified: type_name)
  and type_name =
    Bool | Char | SignedChar | UnsignedChar | WChar | Char16 | Char32
  | Short | UnsignedShort | SignedInt | UnsignedInt
  | Long | UnsignedLong | LongLong | UnsignedLongLong
  | Other string
  | Pointer cpp_type

fun is_pointer :: "cpp_type \<Rightarrow> bool" where
  "is_pointer (Qualified c v (Pointer T)) = True"
| "is_pointer (Qualified c v n) = False"

fun is_integral :: "cpp_type \<Rightarrow> bool" where
  "is_integral (Qualified c v (Pointer T)) = False"
| "is_integral (Qualified c v (Other name)) = False"
| "is_integral (Qualified c v n) = True"

record type_traits =
  is_convertible :: "cpp_type \<Rightarrow> cpp_type \<Rightarrow> bool"
  sizeof :: "cpp_type \<Rightarrow> nat"
  alignof :: "cpp_type \<Rightarrow> nat"

definition remove_cv_t :: "cpp_type \<Rightarrow> cpp_type" where
  "remove_cv_t T = Qualified False False (unqualified T)"

definition char_type :: cpp_type where
  "char_type = Qualified False False Char"

definition const_char_type :: cpp_type where
  "const_char_type = Qualified True False Char"

definition is_allowed_pointer_conversion :: "type_traits \<Rightarrow> cpp_type \<Rightarrow> cpp_type \<Rightarrow> bool" where
  "is_allowed_pointer_conversion tr From To =
     (is_pointer From \<and> is_pointer To \<and> is_convertible tr From To)"

definition is_allowed_integral_conversion :: "type_traits \<Rightarrow> cpp_type \<Rightarrow> cpp_type \<Rightarrow> bool" where
  "is_allowed_integral_conversion tr From To =
     (is_integral From \<and> is_integral To \<and>
      sizeof tr From = sizeof tr To \<and>
      alignof tr From = alignof tr To \<and>
      is_convertible tr From To)"

text \<open>
  The primary template and its two partial specialisations, for \<^verbatim>\<open><From, char>\<close> and
  \<^verbatim>\<open><From, const char>\<close>.
\<close>

definition is_allowed_element_type_conversion :: "type_traits \<Rightarrow> cpp_type \<Rightarrow> cpp_type \<Rightarrow> bool" where
  "is_allowed_element_type_conversion tr From To =
     (if To = char_type then \<not> is_const From
      else if To = const_char_type then True
      else (From = remove_cv_t To \<or>
            is_allowed_pointer_conversion tr From To \<or>
            is_allowed_integral_conversion tr From To))"

text \<open>
  The \<^verbatim>\<open>enable_if\<close> of the converting constructors
  \<^verbatim>\<open>span(const span<OtherElementType, OtherExtent>&)\<close> and its rvalue twin.
\<close>

definition converting_constructor_enabled :: "type_traits \<Rightarrow> cpp_type \<Rightarrow> cpp_type \<Rightarrow> bool" where
  "converting_constructor_enabled tr element_type OtherElementType =
     (element_type \<noteq> OtherElementType \<and>
      is_allowed_element_type_conversion tr OtherElementType element_type)"

text \<open>
  \<^verbatim>\<open>details::is_span<T>\<close> for the type of a constructor argument: true of every
  \<^verbatim>\<open>span<ElementType, Extent>\<close>, cv-qualified or not, false of any other type.
\<close>

datatype argument_type = span_type cpp_type index_type | other_type string

fun is_span :: "argument_type \<Rightarrow> bool" where
  "is_span (span_type ElementType Extent) = True"
| "is_span (other_type T) = False"

text \<open>
  The \<^verbatim>\<open>enable_if\<close> of \<^verbatim>\<open>span(Container&)\<close>: \<^verbatim>\<open>!details::is_span<Container>::value\<close>
  and the two \<^verbatim>\<open>is_convertible\<close> tests on \<^verbatim>\<open>Container::pointer\<close>, whose values
  are the last two arguments.
\<close>

definition container_constructor_enabled :: "argument_type \<Rightarrow> bool \<Rightarrow> bool \<Rightarrow> bool" where
  "container_constructor_enabled Container pointer_converts data_converts =
     (\<not> is_span Container \<and> pointer_converts \<and> data_converts)"

text \<open>
  The converting constructor initialises
  \<^verbatim>\<open>storage_(reinterpret_cast<pointer>(other.data()), other.length())\<close>: \<open>span_convert\<close>
  is what that does when it runs.
\<close>

definition span_convert :: "index_type \<Rightarrow> span \<Rightarrow> error + span" where
  "span_convert Extent other =
     storage_type (reinterpret_cast (data_span other))
       (extent_type_of_size Extent (length_span other))"

text \<open>
  The cast is from \<^verbatim>\<open>OtherElementType*\<close> to \<^verbatim>\<open>element_type*\<close>, and a
  \<^verbatim>\<open>reinterpret_cast\<close> that casts away constness is ill-formed. Level 1 of the two
  pointer types is the element types themselves, level 2 what they point to where both are
  pointers, and so on; \<open>cv_levels\<close> lists the const and volatile qualifiers of both
  types level by level. The cast keeps constness where the qualification conversion
  exists: no level loses a qualifier, and wherever a level's qualifiers differ every level
  above it (from level 1 on) is const in the target.
\<close>

fun cv_levels :: "cpp_type \<Rightarrow> cpp_type \<Rightarrow> ((bool \<times> bool) \<times> (bool \<times> bool)) list" where
  "cv_levels (Qualified c1 v1 n1) T2 =
     ((c1, v1), (is_const T2, is_volatile T2)) #
     (case n1 of
        Pointer U1 \<Rightarrow> (case unqualified T2 of Pointer U2 \<Rightarrow> cv_levels U1 U2 | _ \<Rightarrow> [])
      | _ \<Rightarrow> [])"

fun qualification_converts :: "bool \<Rightarrow> ((bool \<times> bool) \<times> (bool \<times> bool)) list \<Rightarrow> bool" where
  "qualification_converts const_above [] = True"
| "qualification_converts const_above (((c1, v1), (c2, v2)) # levels) =
     ((c1 \<longrightarrow> c2) \<and> (v1 \<longrightarrow> v2) \<and>
      ((c1, v1) \<noteq> (c2, v2) \<longrightarrow> const_above) \<and>
      qualification_converts (const_above \<and> c2) levels)"

definition reinterpret_cast_well_formed :: "cpp_type \<Rightarrow> cpp_type \<Rightarrow> bool" where
  "reinterpret_cast_well_formed From To = qualification_converts True (cv_levels From To)"

text \<open>
  Constructing \<^verbatim>\<open>span<element_type, Extent>\<close> from one argument of type
  \<^verbatim>\<open>span<OtherElementType, OtherExtent>\<close>: overload resolution, then the instantiation
  of the constructor it selects. The constructors from \<^verbatim>\<open>nullptr_t\<close>, from an array and
  from \<^verbatim>\<open>std::array\<close> do not take a span, and the container constructors are disabled
  for it (\<open>is_span\<close>). That leaves the defaulted copy and move constructors, which take
  the same type (the same element type and the same extent), and the converting
  constructors. With none of them viable the program is ill-formed, and so it is when the
  converting constructor is selected and its \<^verbatim>\<open>reinterpret_cast\<close> is ill-formed.
\<close>

definition span_from_span ::
    "type_traits \<Rightarrow> cpp_type \<Rightarrow> index_type \<Rightarrow> cpp_type \<Rightarrow> span \<Rightarrow> error + span" where
  "span_from_span tr element_type Extent OtherElementType other =
     (if \<not> well_formed_extent Extent then Inl IllFormed
      else if element_type = OtherElementType \<and> Extent = extent_of (storage_extent other)
        then Inr other
      else if converting_constructor_enabled tr element_type OtherElementType
        then (if reinterpret_cast_well_formed OtherElementType element_type
              then span_convert Extent other
              else Inl IllFormed)
      else Inl IllFormed)"

subsection \<open>Sub-views\<close>

text \<open>
  The run-time forms return \<^verbatim>\<open>span<element_type, dynamic_extent>\<close>, built by the
  constructor from a pointer and a count. The compile-time forms return
  \<^verbatim>\<open>span<element_type, Count>\<close>, so \<^verbatim>\<open>Count\<close> must name a class that instantiates.
\<close>

definition first_span :: "span \<Rightarrow> index_type \<Rightarrow> error + span" where
  "first_span v count =
     (if count \<ge> 0 \<and> count \<le> size_span v
      then span_ptr_count dynamic_extent (data_span v) count
      else Inl ContractViolation)"

definition last_span :: "span \<Rightarrow> index_type \<Rightarrow> error + span" where
  "last_span v count =
     (if count \<ge> 0 \<and> count \<le> size_span v
      then span_ptr_count dynamic_extent
             (if count = 0 then data_span v
              else ptr_add (data_span v) (ptrdiff_t (size_span v - count)))
             count
      else Inl ContractViolation)"

definition subspan :: "span \<Rightarrow> index_type \<Rightarrow> index_type \<Rightarrow> error + span" where
  "subspan v offset count =
     (if (offset = 0 \<or> offset > 0 \<and> offset \<le> size_span v) \<and>
         (count = dynamic_extent \<or> count \<ge> 0 \<and> ptrdiff_t (offset + count) \<le> size_span v)
      then span_ptr_count dynamic_extent
             (ptr_add (data_span v) offset)
             (if count = dynamic_extent then ptrdiff_t (size_span v - offset) else count)
      else Inl ContractViolation)"

definition first_static :: "index_type \<Rightarrow> span \<Rightarrow> error + span" where
  "first_static Count v =
     (if \<not> well_formed_extent Count then Inl IllFormed
      else if Count \<ge> 0 \<and> Count \<le> size_span v
      then span_ptr_count Count (data_span v) Count
      else Inl ContractViolation)"

definition last_static :: "index_type \<Rightarrow> span \<Rightarrow> error + span" where
  "last_static Count v =
     (if \<not> well_formed_extent Count then Inl IllFormed
      else if Count \<ge> 0 \<and> Count \<le> size_span v
      then span_ptr_count Count
             (if Count = 0 then data_span v
              else ptr_add (data_span v) (ptrdiff_t (size_span v - Count)))
             Count
      else Inl ContractViolation)"

definition subspan_static :: "index_type \<Rightarrow> index_type \<Rightarrow> span \<Rightarrow> error + span" where
  "subspan_static Offset Count v =
     (if \<not> well_formed_extent Count then Inl IllFormed
      else if (Offset = 0 \<or> Offset > 0 \<and> Offset \<le> size_span v) \<and>
         (Count = dynamic_extent \<or> Count \<ge> 0 \<and> ptrdiff_t (Offset + Count) \<le> size_span v)
      then span_ptr_count Count
             (ptr_add (data_span v) Offset)
             (if Count = dynamic_extent then ptrdiff_t (size_span v - Offset) else Count)
      else Inl ContractViolation)"

subsection \<open>Element access\<close>

text \<open>
  \<^verbatim>\<open>operator[]\<close> returns a reference: the address \<^verbatim>\<open>storage_.data() + idx\<close> of the
  element, formed only after the check. \<^verbatim>\<open>operator()\<close> calls \<^verbatim>\<open>operator[]\<close>.
\<close>

definition operator_index :: "span \<Rightarrow> index_type \<Rightarrow> error + pointer" where
  "operator_index v idx =
     (if idx \<ge> 0 \<and> idx < extent_size (storage_extent v)
      then Inr (ptr_add (storage_data v) idx)
      else Inl ContractViolation)"

definition operator_call :: "span \<Rightarrow> index_type \<Rightarrow> error + pointer" where
  "operator_call v idx = operator_index v idx"

subsection \<open>What a view refers to\<close>

text \<open>
  The elements of a view, read from memory in order, and the addresses it covers.
  \<open>valid_span\<close> holds the invariants of a view: the size is a non-negative
  \<^verbatim>\<open>index_type\<close> value, and a null \<^verbatim>\<open>data()\<close> comes with size 0.
\<close>

definition elements :: "'a memory \<Rightarrow> span \<Rightarrow> 'a list" where
  "elements mem v = map (\<lambda>i. mem (data_span v + i)) [0..<nat (size_span v)]"

definition element_range :: "span \<Rightarrow> pointer set" where
  "element_range v = {data_span v ..< data_span v + nat (size_span v)}"

definition valid_span :: "span \<Rightarrow> bool" where
  "valid_span v =
     (0 \<le> size_span v \<and> size_span v \<le> ptrdiff_max \<and>
      (data_span v = nullptr \<longrightarrow> size_span v = 0))"

text \<open>
  \<open>contained w v\<close>: the elements \<open>[data(), data() + size())\<close> of \<open>w\<close> lie within those of
  \<open>v\<close>, also when \<open>w\<close> is empty.
\<close>

definition contained :: "span \<Rightarrow> span \<Rightarrow> bool" where
  "contained w v =
     (data_span v \<le> data_span w \<and>
      int (data_span w) + size_span w \<le> int (data_span v) + size_span v)"

text \<open>
  The views a program can hold: the results of the constructors, of the conversions and
  of the sub-view operations, the latter applied to views obtained the same way.
\<close>

inductive constructed :: "span \<Rightarrow> bool" where
  by_default: "span_default Extent = Inr v \<Longrightarrow> constructed v"
| by_nullptr: "span_nullptr Extent = Inr v \<Longrightarrow> constructed v"
| by_ptr_count: "span_ptr_count Extent ptr count = Inr v \<Longrightarrow> constructed v"
| by_ptr_pair: "span_ptr_pair Extent firstElem lastElem = Inr v \<Longrightarrow> constructed v"
| by_array: "span_array Extent arr N = Inr v \<Longrightarrow> constructed v"
| by_container: "span_container Extent cont_data cont_size = Inr v \<Longrightarrow> constructed v"
| by_span: "constructed other \<Longrightarrow>
      span_from_span tr element_type Extent OtherElementType other = Inr v \<Longrightarrow> constructed v"
| by_first: "constructed u \<Longrightarrow> first_span u count = Inr v \<Longrightarrow> constructed v"
| by_last: "constructed u \<Longrightarrow> last_span u count = Inr v \<Longrightarrow> constructed v"
| by_subspan: "constructed u \<Longrightarrow> subspan u offset count = Inr v \<Longrightarrow> constructed v"
| by_first_static: "constructed u \<Longrightarrow> first_static Count u = Inr v \<Longrightarrow> constructed v"
| by_last_static: "constructed u \<Longrightarrow> last_static Count u = Inr v \<Longrightarrow> constructed v"
| by_subspan_static:
    "constructed u \<Longrightarrow> subspan_static Offset Count u = Inr v \<Longrightarrow> constructed v"

subsection \<open>A concrete buffer and concrete types\<close>

text \<open>
  Five integers 10, 20, 30, 40, 50 stored from address 1000 on, and the dynamic-extent
  view of them; the types \<^verbatim>\<open>int\<close>, \<^verbatim>\<open>const int\<close>, \<^verbatim>\<open>volatile int\<close> and
  \<^verbatim>\<open>unsigned int\<close>, with traits under which \<^verbatim>\<open>int\<close> and \<^verbatim>\<open>unsigned int\<close> are four
  bytes wide and every integral type converts to every other. These are the inputs at
  which the theorems below are instantiated.
\<close>

definition sample_memory :: "int memory" where
  "sample_memory a =
     (if 1000 \<le> a \<and> a < 1005 then [10, 20, 30, 40, 50] ! (a - 1000) else 0)"

definition sample_view :: span where
  "sample_view = \<lparr>storage_extent = extent_dynamic 5, storage_data = 1000\<rparr>"

definition int_type :: cpp_type where
  "int_type = Qualified False False SignedInt"

definition const_int_type :: cpp_type where
  "const_int_type = Qualified True False SignedInt"

definition volatile_int_type :: cpp_type where
  "volatile_int_type = Qualified False True SignedInt"

definition unsigned_int_type :: cpp_type where
  "unsigned_int_type = Qualified False False UnsignedInt"

definition sample_traits :: type_traits where
  "sample_traits =
     \<lparr>is_convertible = (\<lambda>From To. is_integral From \<and> is_integral To),
      sizeof = (\<lambda>T. if unqualified T = SignedInt \<or> unqualified T = UnsignedInt then 4 else 1),
      alignof = (\<lambda>T. if unqualified T = SignedInt \<or> unqualified T = UnsignedInt then 4 else 1)\<rparr>"

section \<open>Basic facts\<close>

lemma ptrdiff_t_small: "0 \<le> x \<Longrightarrow> x \<le> ptrdiff_max \<Longrightarrow> ptrdiff_t x = x"
  by (simp add: ptrdiff_t_def ptrdiff_max_def)

lemma not_dynamic_extent:
  "0 \<le> n \<Longrightarrow> n \<noteq> dynamic_extent"
  "0 \<le> n \<Longrightarrow> dynamic_extent \<noteq> n"
  "\<not> 0 \<le> dynamic_extent"
  "well_formed_extent dynamic_extent"
  "0 \<le> n \<Longrightarrow> well_formed_extent n"
  by (simp_all add: dynamic_extent_def well_formed_extent_def)

lemma ptr_add_nonneg: "0 \<le> n \<Longrightarrow> ptr_add p n = p + nat n"
  by (simp add: ptr_add_def nat_add_distrib)

lemma size_data_simps [simp]:
  "size_span \<lparr>storage_extent = extent_dynamic n, storage_data = p\<rparr> = n"
  "size_span \<lparr>storage_extent = extent_fixed n, storage_data = p\<rparr> = n"
  "data_span \<lparr>storage_extent = x, storage_data = p\<rparr> = p"
  by (simp_all add: size_span_def data_span_def)

text \<open>The constructor from a pointer and a count, for each kind of extent.\<close>

lemma span_ptr_count_dynamic:
  "span_ptr_count dynamic_extent p n =
     (if (p = nullptr \<and> n = 0) \<or> (p \<noteq> nullptr \<and> n \<ge> 0)
      then Inr \<lparr>storage_extent = extent_dynamic n, storage_data = p\<rparr>
      else Inl ContractViolation)"
  by (auto simp: span_ptr_count_def storage_type_def extent_type_of_size_def)

lemma span_ptr_count_fixed:
  "0 \<le> E \<Longrightarrow> span_ptr_count E p n =
     (if n = E \<and> ((p = nullptr \<and> n = 0) \<or> (p \<noteq> nullptr \<and> n \<ge> 0))
      then Inr \<lparr>storage_extent = extent_fixed E, storage_data = p\<rparr>
      else Inl ContractViolation)"
  by (auto simp: span_ptr_count_def storage_type_def extent_type_of_size_def dynamic_extent_def)

lemma span_ptr_count_size_data:
  "span_ptr_count Extent p n = Inr v \<Longrightarrow> size_span v = n \<and> data_span v = p"
  by (auto simp: span_ptr_count_def storage_type_def extent_type_of_size_def size_span_def
      data_span_def split: if_splits)

lemma sample_view_valid: "valid_span sample_view"
  by (simp add: valid_span_def sample_view_def ptrdiff_max_def nullptr_def)

lemma sample_view_elements: "elements sample_memory sample_view = [10, 20, 30, 40, 50]"
  by (simp add: elements_def sample_view_def sample_memory_def upt_conv_Cons)

text \<open>No container constructor takes a span.\<close>

lemma container_constructor_disabled_for_span:
  "\<not> container_constructor_enabled (span_type ElementType Extent) pointer_converts data_converts"
  by (simp add: container_constructor_enabled_def)

text \<open>
  An integral type is not a pointer, and between types that are not pointers the cast is
  well-formed exactly when the target keeps the qualifiers of the source.
\<close>

lemma is_integral_not_pointer: "is_integral T \<Longrightarrow> \<not> is_pointer T"
  by (cases T rule: is_integral.cases) auto

lemma reinterpret_cast_not_pointer:
  "\<not> is_pointer From \<Longrightarrow>
   reinterpret_cast_well_formed From To =
     ((is_const From \<longrightarrow> is_const To) \<and> (is_volatile From \<longrightarrow> is_volatile To))"
  by (cases From; cases "unqualified From") (auto simp: reinterpret_cast_well_formed_def)

subsection \<open>The results of the sub-view operations under their preconditions\<close>

lemma first_span_eq:
  "valid_span v \<Longrightarrow> 0 \<le> c \<Longrightarrow> c \<le> size_span v \<Longrightarrow>
   first_span v c = Inr \<lparr>storage_extent = extent_dynamic c, storage_data = data_span v\<rparr>"
  by (auto simp: first_span_def span_ptr_count_dynamic valid_span_def)

lemma first_static_eq:
  "valid_span v \<Longrightarrow> 0 \<le> c \<Longrightarrow> c \<le> size_span v \<Longrightarrow>
   first_static c v = Inr \<lparr>storage_extent = extent_fixed c, storage_data = data_span v\<rparr>"
  by (auto simp: first_static_def span_ptr_count_fixed valid_span_def well_formed_extent_def)

lemma last_ptr:
  assumes "valid_span v" "0 \<le> c" "c \<le> size_span v"
  shows "(if c = 0 then data_span v else ptr_add (data_span v) (ptrdiff_t (size_span v - c))) =
         (if c = 0 then data_span v else data_span v + nat (size_span v - c))"
    and "c \<noteq> 0 \<Longrightarrow> data_span v \<noteq> nullptr"
  using assms by (auto simp: valid_span_def ptrdiff_t_small ptr_add_nonneg)

lemma last_span_eq:
  assumes "valid_span v" "0 \<le> c" "c \<le> size_span v"
  shows "last_span v c = Inr \<lparr>storage_extent = extent_dynamic c,
           storage_data = (if c = 0 then data_span v else data_span v + nat (size_span v - c))\<rparr>"
  using assms last_ptr [OF assms]
  by (auto simp: last_span_def span_ptr_count_dynamic nullptr_def valid_span_def)

lemma last_static_eq:
  assumes "valid_span v" "0 \<le> c" "c \<le> size_span v"
  shows "last_static c v = Inr \<lparr>storage_extent = extent_fixed c,
           storage_data = (if c = 0 then data_span v else data_span v + nat (size_span v - c))\<rparr>"
  using assms last_ptr [OF assms]
  by (auto simp: last_static_def span_ptr_count_fixed nullptr_def valid_span_def
      well_formed_extent_def)

lemma subspan_count:
  assumes "valid_span v" "0 \<le> off" "off \<le> size_span v"
    "c = dynamic_extent \<or> (0 \<le> c \<and> off + c \<le> size_span v)"
  shows "(off = 0 \<or> off > 0 \<and> off \<le> size_span v) \<and>
         (c = dynamic_extent \<or> c \<ge> 0 \<and> ptrdiff_t (off + c) \<le> size_span v)"
    and "(if c = dynamic_extent then ptrdiff_t (size_span v - off) else c) =
         (if c = dynamic_extent then size_span v - off else c)"
    and "0 \<le> (if c = dynamic_extent then size_span v - off else c)"
    and "ptr_add (data_span v) off = nullptr \<Longrightarrow>
         (if c = dynamic_extent then size_span v - off else c) = 0"
  using assms
  by (auto simp: valid_span_def ptrdiff_t_small ptr_add_nonneg nullptr_def dynamic_extent_def)

lemma subspan_eq:
  assumes "valid_span v" "0 \<le> off" "off \<le> size_span v"
    "c = dynamic_extent \<or> (0 \<le> c \<and> off + c \<le> size_span v)"
  shows "subspan v off c = Inr \<lparr>storage_extent =
           extent_dynamic (if c = dynamic_extent then size_span v - off else c),
           storage_data = data_span v + nat off\<rparr>"
  using subspan_count [OF assms] assms(2)
  by (auto simp: subspan_def span_ptr_count_dynamic ptr_add_nonneg)

lemma subspan_static_eq:
  assumes "valid_span v" "0 \<le> off" "off \<le> size_span v"
    "c = dynamic_extent \<or> (0 \<le> c \<and> off + c \<le> size_span v)"
  shows "subspan_static off c v = Inr \<lparr>storage_extent =
           (if c = dynamic_extent then extent_dynamic (size_span v - off) else extent_fixed c),
           storage_data = data_span v + nat off\<rparr>"
proof (cases "c = dynamic_extent")
  case True
  with subspan_count [OF assms] assms(2) show ?thesis
    by (auto simp: subspan_static_def span_ptr_count_dynamic ptr_add_nonneg well_formed_extent_def)
next
  case False
  with assms have c: "0 \<le> c" by simp
  with False subspan_count [OF assms] assms(2) show ?thesis
    by (auto simp: subspan_static_def span_ptr_count_fixed ptr_add_nonneg well_formed_extent_def)
qed

subsection \<open>The invariants are established and preserved\<close>

lemma span_ptr_count_valid:
  "span_ptr_count Extent p n = Inr v \<Longrightarrow> n \<le> ptrdiff_max \<Longrightarrow> valid_span v"
  by (auto simp: span_ptr_count_def storage_type_def extent_type_of_size_def valid_span_def
      size_span_def data_span_def split: if_splits)

lemma span_default_valid: "span_default Extent = Inr v \<Longrightarrow> valid_span v"
  by (auto simp: span_default_def storage_type_def extent_type_of_extent_def valid_span_def
      size_span_def data_span_def ptrdiff_max_def split: if_splits)

lemma span_array_valid:
  "span_array Extent arr N = Inr v \<Longrightarrow> arr \<noteq> nullptr \<Longrightarrow> int N \<le> ptrdiff_max \<Longrightarrow>
   valid_span v"
  by (auto simp: span_array_def storage_type_def extent_type_of_extent_def valid_span_def
      size_span_def data_span_def split: if_splits)

lemma span_convert_valid:
  "valid_span other \<Longrightarrow> span_convert Extent other = Inr v \<Longrightarrow> valid_span v"
  by (auto simp: span_convert_def storage_type_def extent_type_of_size_def valid_span_def
      size_span_def data_span_def length_span_def reinterpret_cast_def split: if_splits)

lemma subviews_valid:
  assumes "valid_span v"
  shows "0 \<le> c \<Longrightarrow> c \<le> size_span v \<Longrightarrow> first_span v c = Inr w \<Longrightarrow> valid_span w"
    and "0 \<le> c \<Longrightarrow> c \<le> size_span v \<Longrightarrow> last_span v c = Inr w \<Longrightarrow> valid_span w"
    and "0 \<le> off \<Longrightarrow> off \<le> size_span v \<Longrightarrow>
         c = dynamic_extent \<or> (0 \<le> c \<and> off + c \<le> size_span v) \<Longrightarrow>
         subspan v off c = Inr w \<Longrightarrow> valid_span w"
proof -
  show "0 \<le> c \<Longrightarrow> c \<le> size_span v \<Longrightarrow> first_span v c = Inr w \<Longrightarrow> valid_span w"
    using assms by (auto simp: first_span_eq valid_span_def)
  show "0 \<le> c \<Longrightarrow> c \<le> size_span v \<Longrightarrow> last_span v c = Inr w \<Longrightarrow> valid_span w"
    using assms by (auto simp: last_span_eq valid_span_def nullptr_def split: if_splits)
  show "0 \<le> off \<Longrightarrow> off \<le> size_span v \<Longrightarrow>
         c = dynamic_extent \<or> (0 \<le> c \<and> off + c \<le> size_span v) \<Longrightarrow>
         subspan v off c = Inr w \<Longrightarrow> valid_span w"
    using assms by (auto simp: subspan_eq valid_span_def nullptr_def)
qed

subsection \<open>The check of \<^verbatim>\<open>subspan\<close> and the sum \<open>offset + count\<close>\<close>

text \<open>
  Where the sum \<open>offset + count\<close> is representable, \<^verbatim>\<open>subspan\<close> signals every violation
  of its precondition.
\<close>

lemma subspan_checked:
  assumes "0 \<le> size_span v"
    and "\<not> (0 \<le> offset \<and> offset \<le> size_span v \<and>
          (count = dynamic_extent \<or> 0 \<le> count \<and> offset + count \<le> size_span v))"
    and "offset + count \<le> ptrdiff_max"
  shows "subspan v offset count = Inl ContractViolation"
proof (cases "0 \<le> offset \<and> offset \<le> size_span v \<and> 0 \<le> count")
  case True
  with assms(3) have "ptrdiff_t (offset + count) = offset + count"
    by (intro ptrdiff_t_small) auto
  with True assms(2) show ?thesis
    by (auto simp: subspan_def)
next
  case False
  have "dynamic_extent < 0" by (simp add: dynamic_extent_def)
  with False assms(1,2) show ?thesis
    by (auto simp: subspan_def)
qed

lemma elements_slice:
  assumes "0 \<le> size_span w" "data_span w = data_span v + k"
    "int k + size_span w \<le> size_span v"
  shows "elements mem w = take (nat (size_span w)) (drop k (elements mem v))"
  using assms by (auto simp: elements_def list_eq_iff_nth_eq add.assoc)

lemma length_elements: "length (elements mem v) = nat (size_span v)"
  by (simp add: elements_def)

subsection \<open>Sizes are never negative\<close>

lemma extent_type_of_size_nonneg:
  "extent_type_of_size Extent n = Inr x \<Longrightarrow> 0 \<le> extent_size x"
  by (auto simp: extent_type_of_size_def split: if_splits)

lemma extent_type_of_extent_nonneg:
  "extent_type_of_extent Extent N = Inr x \<Longrightarrow> 0 \<le> extent_size x"
  by (auto simp: extent_type_of_extent_def split: if_splits)

lemma storage_type_Inr:
  "storage_type p e = Inr v \<Longrightarrow> e = Inr (storage_extent v) \<and> storage_data v = p"
  by (auto simp: storage_type_def split: sum.splits)

lemma span_ptr_count_nonneg: "span_ptr_count Extent p n = Inr v \<Longrightarrow> 0 \<le> size_span v"
  by (auto simp: span_ptr_count_def size_span_def split: sum.splits if_splits
      dest!: storage_type_Inr extent_type_of_size_nonneg)

lemma span_convert_nonneg: "span_convert Extent other = Inr v \<Longrightarrow> 0 \<le> size_span v"
  by (auto simp: span_convert_def size_span_def dest!: storage_type_Inr extent_type_of_size_nonneg)

lemma constructed_nonneg: "constructed v \<Longrightarrow> 0 \<le> size_span v"
proof (induction rule: constructed.induct)
  case (by_default Extent v)
  then show ?case
    by (auto simp: span_default_def size_span_def
        dest!: storage_type_Inr extent_type_of_extent_nonneg)
next
  case (by_nullptr Extent v)
  then show ?case
    by (auto simp: span_nullptr_def span_default_def size_span_def
        dest!: storage_type_Inr extent_type_of_extent_nonneg)
next
  case (by_ptr_count Extent ptr count v)
  then show ?case by (rule span_ptr_count_nonneg)
next
  case (by_ptr_pair Extent firstElem lastElem v)
  then show ?case
    by (auto simp: span_ptr_pair_def size_span_def
        dest!: storage_type_Inr extent_type_of_size_nonneg)
next
  case (by_array Extent arr N v)
  then show ?case
    by (auto simp: span_array_def size_span_def
        dest!: storage_type_Inr extent_type_of_extent_nonneg)
next
  case (by_container Extent cont_data cont_size v)
  then show ?case by (auto simp: span_container_def dest: span_ptr_count_nonneg)
next
  case (by_span other tr element_type Extent OtherElementType v)
  then show ?case
    by (auto simp: span_from_span_def split: if_splits dest: span_convert_nonneg)
next
  case (by_first u count v)
  then show ?case by (auto simp: first_span_def split: if_splits dest: span_ptr_count_nonneg)
next
  case (by_last u count v)
  then show ?case by (auto simp: last_span_def split: if_splits dest: span_ptr_count_nonneg)
next
  case (by_subspan u offset count v)
  then show ?case by (auto simp: subspan_def split: if_splits dest: span_ptr_count_nonneg)
next
  case (by_first_static u Count v)
  then show ?case by (auto simp: first_static_def split: if_splits dest: span_ptr_count_nonneg)
next
  case (by_last_static u Count v)
  then show ?case by (auto simp: last_static_def split: if_splits dest: span_ptr_count_nonneg)
next
  case (by_subspan_static u Offset Count v)
  then show ?case
    by (auto simp: subspan_static_def split: if_splits dest: span_ptr_count_nonneg)
qed

lemma sample_view_constructed: "constructed sample_view"
proof -
  have "span_ptr_count dynamic_extent 1000 5 = Inr sample_view"
    by (simp add: span_ptr_count_dynamic sample_view_def nullptr_def)
  then show ?thesis by (rule by_ptr_count)
qed

section \<open>Element access\<close>

text \<open>
  Claim C1. For an index \<open>i\<close> with \<open>0 \<le> i < size()\<close>, \<^verbatim>\<open>v[i]\<close> returns the reference
  to the \<open>i\<close>-th element: the address \<open>data() + i\<close>, where memory holds the \<open>i\<close>-th of
  the view's elements; for a view constructed over the \<open>n\<close> elements at \<open>buf\<close> that is
  the address \<open>buf + i\<close>. For \<open>i < 0\<close> or \<open>i \<ge> size()\<close> it signals the contract violation
  and returns no reference. \<^verbatim>\<open>v(i)\<close> is the same operation.
\<close>

theorem operator_index_checked:
  "(0 \<le> i \<and> i < size_span v \<longrightarrow>
      operator_index v i = Inr (data_span v + nat i) \<and>
      mem (data_span v + nat i) = elements mem v ! nat i) \<and>
   (span_ptr_count Extent buf n = Inr v \<and> 0 \<le> i \<and> i < n \<longrightarrow>
      operator_index v i = Inr (buf + nat i)) \<and>
   (i < 0 \<or> size_span v \<le> i \<longrightarrow> operator_index v i = Inl ContractViolation) \<and>
   operator_call v i = operator_index v i"
proof -
  have a: "0 \<le> i \<Longrightarrow> i < size_span v \<Longrightarrow> operator_index v i = Inr (data_span v + nat i)"
    by (simp add: operator_index_def size_span_def data_span_def ptr_add_nonneg)
  have b: "0 \<le> i \<Longrightarrow> i < size_span v \<Longrightarrow>
      mem (data_span v + nat i) = elements mem v ! nat i"
    by (simp add: elements_def)
  have c: "i < 0 \<or> size_span v \<le> i \<Longrightarrow> operator_index v i = Inl ContractViolation"
    by (auto simp: operator_index_def size_span_def)
  have d: "operator_call v i = operator_index v i"
    by (simp add: operator_call_def)
  from a b c d show ?thesis
    by (auto dest: span_ptr_count_size_data)
qed

theorem operator_index_checked_witness:
  "operator_index sample_view 2 = Inr 1002 \<and>
   sample_memory 1002 = 30 \<and>
   elements sample_memory sample_view ! 2 = 30 \<and>
   operator_index sample_view 5 = Inl ContractViolation \<and>
   operator_index sample_view (- 1) = Inl ContractViolation \<and>
   operator_call sample_view 2 = Inr 1002 \<and>
   operator_call sample_view 5 = Inl ContractViolation"
  using operator_index_checked [of 2 sample_view sample_memory dynamic_extent 1000 5]
    operator_index_checked [of 5 sample_view sample_memory dynamic_extent 1000 5]
    operator_index_checked [of "- 1" sample_view sample_memory dynamic_extent 1000 5]
  by (simp add: sample_view_def sample_memory_def span_ptr_count_dynamic nullptr_def)

section \<open>Construction\<close>

text \<open>
  Claim C2, as amended. Constructing \<^verbatim>\<open>span<T, Extent>\<close> from a pointer and a count
  signals the contract violation exactly when one of two checks fails: the extent's own
  (none beyond \<open>count \<ge> 0\<close> for a dynamic extent, \<open>count = Extent\<close> for a fixed one) or the
  constructor's (the pointer is null and the count is 0, or the pointer is not null and
  the count is not negative). On success \<open>size()\<close> is the count and \<open>data()\<close> the pointer.
  For a dynamic extent that is the condition on the pointer and the count alone.
\<close>

theorem span_ptr_count_checked:
  assumes "well_formed_extent Extent"
  shows "(span_ptr_count Extent ptr count = Inl ContractViolation \<longleftrightarrow>
            \<not> ((Extent = dynamic_extent \<or> count = Extent) \<and>
               ((ptr = nullptr \<and> count = 0) \<or> (ptr \<noteq> nullptr \<and> count \<ge> 0)))) \<and>
         ((\<exists>v. span_ptr_count Extent ptr count = Inr v) \<longleftrightarrow>
            (Extent = dynamic_extent \<or> count = Extent) \<and>
            ((ptr = nullptr \<and> count = 0) \<or> (ptr \<noteq> nullptr \<and> count \<ge> 0))) \<and>
         (\<forall>v. span_ptr_count Extent ptr count = Inr v \<longrightarrow>
            size_span v = count \<and> data_span v = ptr)"
proof (cases "Extent = dynamic_extent")
  case True
  then show ?thesis by (auto simp: span_ptr_count_dynamic)
next
  case False
  with assms have "0 \<le> Extent" by (simp add: well_formed_extent_def)
  with False show ?thesis by (auto simp: span_ptr_count_fixed)
qed

theorem span_ptr_count_checked_witness:
  "well_formed_extent dynamic_extent \<and>
   span_ptr_count dynamic_extent nullptr 3 = Inl ContractViolation \<and>
   span_ptr_count dynamic_extent nullptr 0 =
     Inr \<lparr>storage_extent = extent_dynamic 0, storage_data = nullptr\<rparr> \<and>
   span_ptr_count dynamic_extent 1000 5 = Inr sample_view \<and>
   size_span sample_view = 5 \<and> data_span sample_view = 1000 \<and>
   span_ptr_count dynamic_extent 1000 (- 1) = Inl ContractViolation"
proof -
  have h: "well_formed_extent dynamic_extent"
    by (simp add: well_formed_extent_def)
  show ?thesis
    using h span_ptr_count_checked [OF h, of nullptr 3] span_ptr_count_checked [OF h, of nullptr 0]
      span_ptr_count_checked [OF h, of 1000 5] span_ptr_count_checked [OF h, of 1000 "- 1"]
    by (simp add: span_ptr_count_dynamic nullptr_def sample_view_def)
qed

text \<open>
  The claim as written gives the condition on the pointer and the count as the only one.
  For \<^verbatim>\<open>span<T, 5>\<close>, a non-null pointer and the count 3 that condition holds and the
  constructor signals the contract violation.
\<close>

theorem span_ptr_count_fixed_counterexample:
  "span_ptr_count 5 1000 3 = Inl ContractViolation \<and>
   ((1000 = nullptr \<and> (3::int) = 0) \<or> (1000 \<noteq> nullptr \<and> (3::int) \<ge> 0))"
  by (simp add: span_ptr_count_fixed nullptr_def)

text \<open>
  Claim C10. Constructing a view from a first pointer and a one-past-last pointer that
  precedes it signals the contract violation: the distance is negative and the extent
  rejects it (\<open>size \<ge> 0\<close> for a dynamic extent, \<open>size = Extent\<close> for a fixed one). With the
  checks of the other constructors, no view that a program constructs has a negative
  \<open>size()\<close>.
\<close>

theorem no_negative_size:
  "(well_formed_extent Extent \<and> lastElem < firstElem \<longrightarrow>
      distance firstElem lastElem < 0 \<and>
      span_ptr_pair Extent firstElem lastElem = Inl ContractViolation) \<and>
   (constructed v \<longrightarrow> 0 \<le> size_span v)"
  by (auto simp: constructed_nonneg span_ptr_pair_def distance_def storage_type_def
      extent_type_of_size_def well_formed_extent_def)

theorem no_negative_size_witness:
  "well_formed_extent dynamic_extent \<and> (1000::nat) < 1005 \<and>
   distance 1005 1000 = - 5 \<and>
   span_ptr_pair dynamic_extent 1005 1000 = Inl ContractViolation \<and>
   span_ptr_pair dynamic_extent 1000 1005 = Inr sample_view \<and>
   constructed sample_view \<and> 0 \<le> size_span sample_view"
  using no_negative_size [of dynamic_extent 1000 1005 sample_view] sample_view_constructed
  by (simp add: well_formed_extent_def distance_def span_ptr_pair_def storage_type_def
      extent_type_of_size_def sample_view_def)

section \<open>Extents\<close>

text \<open>
  Claim C7. Constructing the fixed extent \<open>E\<close> from a run-time count signals the contract
  violation exactly when the count is not \<open>E\<close>; so does converting a view to the fixed
  extent \<open>E\<close>, whose count is the size of the source, and so does constructing the view
  from a pair of pointers, whose count is their distance, or from a non-null pointer and
  a count. Where the construction succeeds the result holds no count of its own:
  \<open>size()\<close> is \<open>E\<close>, whatever the pointer.
\<close>

theorem fixed_extent_narrowing:
  assumes "0 \<le> E"
  shows "(extent_type_of_size E count = Inl ContractViolation \<longleftrightarrow> count \<noteq> E) \<and>
         (extent_type_of_size E count = Inr (extent_fixed E) \<longleftrightarrow> count = E) \<and>
         extent_size (extent_fixed E) = E \<and>
         (span_convert E other = Inl ContractViolation \<longleftrightarrow> size_span other \<noteq> E) \<and>
         (span_convert E other =
            Inr \<lparr>storage_extent = extent_fixed E, storage_data = data_span other\<rparr> \<longleftrightarrow>
          size_span other = E) \<and>
         (span_ptr_pair E p q = Inl ContractViolation \<longleftrightarrow> distance p q \<noteq> E) \<and>
         (p \<noteq> nullptr \<longrightarrow>
            (span_ptr_count E p count = Inl ContractViolation \<longleftrightarrow> count \<noteq> E) \<and>
            (span_ptr_count E p count =
               Inr \<lparr>storage_extent = extent_fixed E, storage_data = p\<rparr> \<longleftrightarrow> count = E)) \<and>
         size_span \<lparr>storage_extent = extent_fixed E, storage_data = p\<rparr> = E"
  using assms
  by (auto simp: extent_type_of_size_def dynamic_extent_def span_convert_def storage_type_def
      length_span_def reinterpret_cast_def size_span_def span_ptr_count_fixed span_ptr_pair_def)

theorem fixed_extent_narrowing_witness:
  "(0::int) \<le> 5 \<and>
   extent_type_of_size 5 3 = Inl ContractViolation \<and>
   extent_type_of_size 5 5 = Inr (extent_fixed 5) \<and>
   span_convert 3 sample_view = Inl ContractViolation \<and>
   span_convert 5 sample_view = Inr \<lparr>storage_extent = extent_fixed 5, storage_data = 1000\<rparr> \<and>
   span_ptr_pair 5 1000 1003 = Inl ContractViolation \<and>
   span_ptr_count 5 1000 3 = Inl ContractViolation \<and>
   span_ptr_count 5 1000 5 = Inr \<lparr>storage_extent = extent_fixed 5, storage_data = 1000\<rparr> \<and>
   size_span \<lparr>storage_extent = extent_fixed 5, storage_data = 1000\<rparr> = 5"
proof -
  have h5: "(0::int) \<le> 5" and h3: "(0::int) \<le> 3" by simp_all
  show ?thesis
    using fixed_extent_narrowing [OF h5, of 3 sample_view 1000 1003]
      fixed_extent_narrowing [OF h5, of 5 sample_view 1000 1003]
      fixed_extent_narrowing [OF h3, of 3 sample_view 1000 1003]
    by (simp add: sample_view_def nullptr_def distance_def)
qed

text \<open>
  Widening the extent of an array's view. The dynamic-extent view constructed from the
  array takes the array's length with no check, and the fixed-extent view of the array
  converts to a dynamic-extent view of a different element type wherever the converting
  constructor is enabled and its cast well-formed. Both have the array's length and
  address.
\<close>

lemma array_view_widened:
  "span_array dynamic_extent arr N =
     Inr \<lparr>storage_extent = extent_dynamic (int N), storage_data = arr\<rparr> \<and>
   span_array (int N) arr N =
     Inr \<lparr>storage_extent = extent_fixed (int N), storage_data = arr\<rparr> \<and>
   (converting_constructor_enabled tr To From \<and> reinterpret_cast_well_formed From To \<longrightarrow>
      span_from_span tr To dynamic_extent From
          \<lparr>storage_extent = extent_fixed (int N), storage_data = arr\<rparr> =
        Inr \<lparr>storage_extent = extent_dynamic (int N), storage_data = arr\<rparr>)"
  by (auto simp: span_array_def extent_type_of_extent_def storage_type_def dynamic_extent_def
      span_from_span_def span_convert_def extent_type_of_size_def well_formed_extent_def
      length_span_def reinterpret_cast_def converting_constructor_enabled_def)

text \<open>
  The same element type, however, never converts between different extents: the copy
  constructor takes the same extent only, and the converting constructor is disabled by
  \<^verbatim>\<open>!std::is_same<element_type, OtherElementType>\<close>.
\<close>

lemma same_element_type_not_convertible:
  "Extent \<noteq> extent_of (storage_extent other) \<Longrightarrow>
   span_from_span tr T Extent T other = Inl IllFormed"
  by (simp add: span_from_span_def converting_constructor_enabled_def)

text \<open>
  Claim C4. The claim constructs the fixed-extent view of an array of length \<open>N\<close> and
  converts it to a dynamic-extent view of the same element type, with \<open>size() = N\<close> and
  \<open>data()\<close> unchanged. For an \<^verbatim>\<open>int[3]\<close> at address 1000 the conversion of
  \<^verbatim>\<open>span<int, 3>\<close> to \<^verbatim>\<open>span<int, dynamic_extent>\<close> is ill-formed: no constructor is
  viable, although the element type conversion rule admits \<^verbatim>\<open>int\<close> to \<^verbatim>\<open>int\<close>. The
  neighbouring paths do what the claim says: the dynamic-extent view constructed from the
  array, and the conversion to \<^verbatim>\<open>span<const int, dynamic_extent>\<close>, have size 3 and
  the array's address.
\<close>

theorem same_element_type_ill_formed:
  "span_array 3 1000 3 = Inr \<lparr>storage_extent = extent_fixed 3, storage_data = 1000\<rparr> \<and>
   span_from_span sample_traits int_type dynamic_extent int_type
       \<lparr>storage_extent = extent_fixed 3, storage_data = 1000\<rparr> = Inl IllFormed \<and>
   is_allowed_element_type_conversion sample_traits int_type int_type \<and>
   span_array dynamic_extent 1000 3 =
     Inr \<lparr>storage_extent = extent_dynamic 3, storage_data = 1000\<rparr> \<and>
   span_from_span sample_traits const_int_type dynamic_extent int_type
       \<lparr>storage_extent = extent_fixed 3, storage_data = 1000\<rparr> =
     Inr \<lparr>storage_extent = extent_dynamic 3, storage_data = 1000\<rparr>"
proof -
  have a: "span_array 3 1000 3 = Inr \<lparr>storage_extent = extent_fixed 3, storage_data = 1000\<rparr>"
    "span_array dynamic_extent 1000 3 =
       Inr \<lparr>storage_extent = extent_dynamic 3, storage_data = 1000\<rparr>"
    using array_view_widened [of 1000 3] by simp_all
  have b: "span_from_span sample_traits int_type dynamic_extent int_type
       \<lparr>storage_extent = extent_fixed 3, storage_data = 1000\<rparr> = Inl IllFormed"
    by (rule same_element_type_not_convertible) (simp add: dynamic_extent_def)
  have c: "is_allowed_element_type_conversion sample_traits int_type int_type"
    by (simp add: is_allowed_element_type_conversion_def int_type_def char_type_def
        const_char_type_def remove_cv_t_def)
  have d: "converting_constructor_enabled sample_traits const_int_type int_type"
    by (simp add: converting_constructor_enabled_def is_allowed_element_type_conversion_def
        const_int_type_def int_type_def char_type_def const_char_type_def remove_cv_t_def)
  have e: "reinterpret_cast_well_formed int_type const_int_type"
    by (simp add: reinterpret_cast_well_formed_def int_type_def const_int_type_def)
  have f: "span_from_span sample_traits const_int_type dynamic_extent int_type
       \<lparr>storage_extent = extent_fixed 3, storage_data = 1000\<rparr> =
     Inr \<lparr>storage_extent = extent_dynamic 3, storage_data = 1000\<rparr>"
    using array_view_widened [of 1000 3 sample_traits const_int_type int_type] d e by simp
  from a b c f show ?thesis by simp
qed

section \<open>Element type conversions\<close>

text \<open>
  Claim C8, as amended. A view whose element type is not const converts to a view of a
  different integral element type of the same size and alignment to which the source's
  type converts implicitly, provided the target type is volatile where the source's is:
  the converting constructor is enabled and its cast well-formed, and the view it returns
  has the \<open>data()\<close> and the \<open>size()\<close> of the source. It returns one for a dynamic target
  extent and for the fixed target extent equal to the source's size.
\<close>

theorem integral_conversion_preserves:
  assumes "\<not> is_const From" and "is_volatile From \<longrightarrow> is_volatile To"
    and "To \<noteq> From"
    and "is_integral From" and "is_integral To"
    and "sizeof tr From = sizeof tr To" and "alignof tr From = alignof tr To"
    and "is_convertible tr From To"
    and "valid_span v"
  shows "converting_constructor_enabled tr To From \<and>
         reinterpret_cast_well_formed From To \<and>
         (\<forall>w. span_from_span tr To Extent From v = Inr w \<longrightarrow>
              data_span w = data_span v \<and> size_span w = size_span v) \<and>
         (Extent = dynamic_extent \<or> Extent = size_span v \<longrightarrow>
            (\<exists>w. span_from_span tr To Extent From v = Inr w))"
proof -
  have en: "converting_constructor_enabled tr To From"
    using assms
    by (auto simp: converting_constructor_enabled_def is_allowed_element_type_conversion_def
        is_allowed_integral_conversion_def)
  have wf: "reinterpret_cast_well_formed From To"
    using assms(1,2,4) by (simp add: reinterpret_cast_not_pointer is_integral_not_pointer)
  have sz: "0 \<le> size_span v"
    using assms by (simp add: valid_span_def)
  have "span_from_span tr To Extent From v = Inr w \<Longrightarrow>
      data_span w = data_span v \<and> size_span w = size_span v" for w
    using en wf assms(3)
    by (auto simp: span_from_span_def span_convert_def storage_type_def extent_type_of_size_def
        length_span_def reinterpret_cast_def split: if_splits)
  moreover have "Extent = dynamic_extent \<or> Extent = size_span v \<Longrightarrow>
      \<exists>w. span_from_span tr To Extent From v = Inr w"
    using en wf assms(3) sz
    by (auto simp: span_from_span_def span_convert_def storage_type_def extent_type_of_size_def
        length_span_def well_formed_extent_def)
  ultimately show ?thesis
    using en wf by blast
qed

theorem integral_conversion_preserves_witness:
  "\<not> is_const int_type \<and> \<not> is_volatile int_type \<and> unsigned_int_type \<noteq> int_type \<and>
   is_integral int_type \<and> is_integral unsigned_int_type \<and>
   sizeof sample_traits int_type = sizeof sample_traits unsigned_int_type \<and>
   alignof sample_traits int_type = alignof sample_traits unsigned_int_type \<and>
   is_convertible sample_traits int_type unsigned_int_type \<and>
   valid_span sample_view \<and>
   converting_constructor_enabled sample_traits unsigned_int_type int_type \<and>
   reinterpret_cast_well_formed int_type unsigned_int_type \<and>
   span_from_span sample_traits unsigned_int_type dynamic_extent int_type sample_view =
     Inr sample_view \<and>
   span_from_span sample_traits unsigned_int_type 5 int_type sample_view =
     Inr \<lparr>storage_extent = extent_fixed 5, storage_data = 1000\<rparr>"
proof -
  have h: "\<not> is_const int_type" "is_volatile int_type \<longrightarrow> is_volatile unsigned_int_type"
    "unsigned_int_type \<noteq> int_type"
    "is_integral int_type" "is_integral unsigned_int_type"
    "sizeof sample_traits int_type = sizeof sample_traits unsigned_int_type"
    "alignof sample_traits int_type = alignof sample_traits unsigned_int_type"
    "is_convertible sample_traits int_type unsigned_int_type"
    by (simp_all add: int_type_def unsigned_int_type_def sample_traits_def)
  have nv: "\<not> is_volatile int_type"
    by (simp add: int_type_def)
  have en: "converting_constructor_enabled sample_traits unsigned_int_type int_type"
    "reinterpret_cast_well_formed int_type unsigned_int_type"
    using integral_conversion_preserves [OF h sample_view_valid] by simp_all
  show ?thesis
    using h(1,3-8) nv en sample_view_valid integral_conversion_preserves [OF h sample_view_valid]
    by (simp add: span_from_span_def span_convert_def storage_type_def extent_type_of_size_def
        length_span_def reinterpret_cast_def well_formed_extent_def dynamic_extent_def
        sample_view_def)
qed

text \<open>
  The claim as written asks only that the source's element type is not const.
  \<^verbatim>\<open>volatile int\<close> is not const, and \<^verbatim>\<open>unsigned int\<close> is a different integral type of
  its size and alignment to which it converts; the converting constructor is enabled, but
  its \<^verbatim>\<open>reinterpret_cast\<close> would cast \<^verbatim>\<open>volatile\<close> away, so the conversion of
  \<^verbatim>\<open>span<volatile int>\<close> to \<^verbatim>\<open>span<unsigned int>\<close> is ill-formed.
\<close>

theorem volatile_source_counterexample:
  "\<not> is_const volatile_int_type \<and> unsigned_int_type \<noteq> volatile_int_type \<and>
   is_integral volatile_int_type \<and> is_integral unsigned_int_type \<and>
   sizeof sample_traits volatile_int_type = sizeof sample_traits unsigned_int_type \<and>
   alignof sample_traits volatile_int_type = alignof sample_traits unsigned_int_type \<and>
   is_convertible sample_traits volatile_int_type unsigned_int_type \<and>
   converting_constructor_enabled sample_traits unsigned_int_type volatile_int_type \<and>
   \<not> reinterpret_cast_well_formed volatile_int_type unsigned_int_type \<and>
   span_from_span sample_traits unsigned_int_type dynamic_extent volatile_int_type sample_view =
     Inl IllFormed"
  by (simp add: volatile_int_type_def unsigned_int_type_def sample_traits_def
      converting_constructor_enabled_def is_allowed_element_type_conversion_def
      is_allowed_integral_conversion_def char_type_def const_char_type_def remove_cv_t_def
      reinterpret_cast_well_formed_def span_from_span_def well_formed_extent_def)

section \<open>Sub-views\<close>

text \<open>
  Claim C3. For a view \<open>v\<close> and \<open>0 \<le> count \<le> size()\<close>, \<^verbatim>\<open>v.last(count)\<close> returns a view of
  size \<open>count\<close> whose \<open>data()\<close> is \<open>v.data() + (v.size() - count)\<close> when \<open>count > 0\<close> and
  \<open>v.data()\<close> itself when \<open>count = 0\<close>; its elements are the trailing \<open>count\<close> elements of
  \<open>v\<close>. \<^verbatim>\<open>v.last<count>()\<close> returns the view of the same data with the fixed extent
  \<open>count\<close>.
\<close>

theorem last_span_trailing:
  assumes "valid_span v" and "0 \<le> count" and "count \<le> size_span v"
  shows "\<exists>w. last_span v count = Inr w \<and> size_span w = count \<and>
           data_span w = (if count = 0 then data_span v
                          else data_span v + nat (size_span v - count)) \<and>
           elements mem w = drop (nat (size_span v - count)) (elements mem v) \<and>
           last_static count v =
             Inr \<lparr>storage_extent = extent_fixed count, storage_data = data_span w\<rparr>"
proof -
  let ?p = "if count = 0 then data_span v else data_span v + nat (size_span v - count)"
  let ?w = "\<lparr>storage_extent = extent_dynamic count, storage_data = ?p\<rparr>"
  have "elements mem ?w = take (nat (size_span ?w)) (drop (nat (size_span v - count)) (elements mem v))"
  proof (cases "count = 0")
    case True
    then show ?thesis by (simp add: elements_def)
  next
    case False
    with assms show ?thesis by (intro elements_slice) auto
  qed
  moreover have "nat count = length (elements mem v) - nat (size_span v - count)"
    using assms by (simp add: length_elements)
  ultimately have "elements mem ?w = drop (nat (size_span v - count)) (elements mem v)"
    by simp
  then show ?thesis
    using last_span_eq [OF assms] last_static_eq [OF assms] by simp
qed

theorem last_span_trailing_witness:
  "valid_span sample_view \<and>
   last_span sample_view 2 = Inr \<lparr>storage_extent = extent_dynamic 2, storage_data = 1003\<rparr> \<and>
   elements sample_memory \<lparr>storage_extent = extent_dynamic 2, storage_data = 1003\<rparr> = [40, 50] \<and>
   last_static 2 sample_view = Inr \<lparr>storage_extent = extent_fixed 2, storage_data = 1003\<rparr> \<and>
   last_span sample_view 0 = Inr \<lparr>storage_extent = extent_dynamic 0, storage_data = 1000\<rparr> \<and>
   data_span sample_view = 1000"
proof -
  have h2: "(0::int) \<le> 2" "2 \<le> size_span sample_view"
    and h0: "(0::int) \<le> 0" "0 \<le> size_span sample_view"
    by (simp_all add: sample_view_def)
  show ?thesis
    using sample_view_valid
      last_span_trailing [OF sample_view_valid h2, of sample_memory]
      last_span_trailing [OF sample_view_valid h0, of sample_memory]
    by (simp add: last_span_def last_static_def well_formed_extent_def span_ptr_count_dynamic
        span_ptr_count_fixed ptrdiff_t_def ptr_add_def nullptr_def sample_view_def
        elements_def sample_memory_def upt_conv_Cons)
qed

text \<open>
  Claim C6. For a view \<open>v\<close> and \<open>0 \<le> count \<le> size()\<close>, \<^verbatim>\<open>v.first(count)\<close> returns a view
  with \<open>data() = v.data()\<close> and \<open>size() = count\<close> whose elements are the first \<open>count\<close>
  elements of \<open>v\<close>, and \<^verbatim>\<open>v.first<count>()\<close> the view of the same data with the fixed
  extent \<open>count\<close>. For a count outside that range both signal the contract violation
  (the compile-time form where its return type \<^verbatim>\<open>span<T, count>\<close> exists). \<^verbatim>\<open>v.first(v.size())\<close>
  has the data, the size and the elements of \<open>v\<close>.
\<close>

theorem first_span_leading:
  assumes "valid_span v"
  shows "(0 \<le> count \<and> count \<le> size_span v \<longrightarrow>
            (\<exists>w. first_span v count = Inr w \<and> data_span w = data_span v \<and>
                 size_span w = count \<and> elements mem w = take (nat count) (elements mem v)) \<and>
            first_static count v =
              Inr \<lparr>storage_extent = extent_fixed count, storage_data = data_span v\<rparr>) \<and>
         (count < 0 \<or> size_span v < count \<longrightarrow>
            first_span v count = Inl ContractViolation \<and>
            (well_formed_extent count \<longrightarrow> first_static count v = Inl ContractViolation)) \<and>
         (\<exists>w. first_span v (size_span v) = Inr w \<and> data_span w = data_span v \<and>
              size_span w = size_span v \<and> elements mem w = elements mem v)"
proof (intro conjI impI)
  assume c: "0 \<le> count \<and> count \<le> size_span v"
  let ?w = "\<lparr>storage_extent = extent_dynamic count, storage_data = data_span v\<rparr>"
  have "elements mem ?w = take (nat (size_span ?w)) (drop 0 (elements mem v))"
    using c by (intro elements_slice) auto
  with c assms show "\<exists>w. first_span v count = Inr w \<and> data_span w = data_span v \<and>
      size_span w = count \<and> elements mem w = take (nat count) (elements mem v)"
    by (simp add: first_span_eq)
  from c assms show "first_static count v =
      Inr \<lparr>storage_extent = extent_fixed count, storage_data = data_span v\<rparr>"
    by (simp add: first_static_eq)
next
  assume "count < 0 \<or> size_span v < count"
  then show "first_span v count = Inl ContractViolation"
    by (auto simp: first_span_def)
next
  assume "count < 0 \<or> size_span v < count" and "well_formed_extent count"
  then show "first_static count v = Inl ContractViolation"
    by (auto simp: first_static_def)
next
  let ?w = "\<lparr>storage_extent = extent_dynamic (size_span v), storage_data = data_span v\<rparr>"
  have v: "0 \<le> size_span v"
    using assms by (simp add: valid_span_def)
  have "elements mem ?w = take (nat (size_span ?w)) (drop 0 (elements mem v))"
    using v by (intro elements_slice) auto
  then show "\<exists>w. first_span v (size_span v) = Inr w \<and> data_span w = data_span v \<and>
      size_span w = size_span v \<and> elements mem w = elements mem v"
    using v assms by (simp add: first_span_eq length_elements)
qed

theorem first_span_leading_witness:
  "valid_span sample_view \<and>
   first_span sample_view 2 = Inr \<lparr>storage_extent = extent_dynamic 2, storage_data = 1000\<rparr> \<and>
   elements sample_memory \<lparr>storage_extent = extent_dynamic 2, storage_data = 1000\<rparr> = [10, 20] \<and>
   first_static 2 sample_view = Inr \<lparr>storage_extent = extent_fixed 2, storage_data = 1000\<rparr> \<and>
   first_span sample_view 6 = Inl ContractViolation \<and>
   first_static 6 sample_view = Inl ContractViolation \<and>
   first_span sample_view (- 1) = Inl ContractViolation \<and>
   first_static dynamic_extent sample_view = Inl ContractViolation \<and>
   first_span sample_view 5 = Inr sample_view"
  using sample_view_valid
    first_span_leading [OF sample_view_valid, of 2 sample_memory]
    first_span_leading [OF sample_view_valid, of 6 sample_memory]
    first_span_leading [OF sample_view_valid, of dynamic_extent sample_memory]
  by (simp add: first_span_def first_static_def not_dynamic_extent span_ptr_count_dynamic
      span_ptr_count_fixed nullptr_def sample_view_def
      elements_def sample_memory_def upt_conv_Cons)

text \<open>
  \<^verbatim>\<open>subspan\<close> under its precondition \<open>0 \<le> offset \<le> size()\<close> and (\<open>count\<close> is
  \<^verbatim>\<open>dynamic_extent\<close>, or \<open>0 \<le> count\<close> and \<open>offset + count \<le> size()\<close>): the result starts at
  \<open>data() + offset\<close>, and its size is \<open>size() - offset\<close> when \<open>count\<close> is
  \<^verbatim>\<open>dynamic_extent\<close> and \<open>count\<close> otherwise; the compile-time form returns the same data
  and size. \<^verbatim>\<open>v.subspan(0, v.size())\<close> has the data, the size and the elements of \<open>v\<close>.
\<close>

lemma subspan_under_precondition:
  assumes "valid_span v"
  shows "(0 \<le> offset \<and> offset \<le> size_span v \<and>
          (count = dynamic_extent \<or> 0 \<le> count \<and> offset + count \<le> size_span v) \<longrightarrow>
            (\<exists>w. subspan v offset count = Inr w \<and>
                 data_span w = data_span v + nat offset \<and>
                 size_span w = (if count = dynamic_extent then size_span v - offset else count) \<and>
                 elements mem w = take (nat (size_span w)) (drop (nat offset) (elements mem v))) \<and>
            (\<exists>w. subspan_static offset count v = Inr w \<and>
                 data_span w = data_span v + nat offset \<and>
                 size_span w = (if count = dynamic_extent then size_span v - offset else count))) \<and>
         (\<exists>w. subspan v 0 (size_span v) = Inr w \<and> data_span w = data_span v \<and>
              size_span w = size_span v \<and> elements mem w = elements mem v)"
proof (intro conjI impI)
  assume p: "0 \<le> offset \<and> offset \<le> size_span v \<and>
          (count = dynamic_extent \<or> 0 \<le> count \<and> offset + count \<le> size_span v)"
  let ?n = "if count = dynamic_extent then size_span v - offset else count"
  let ?w = "\<lparr>storage_extent = extent_dynamic ?n, storage_data = data_span v + nat offset\<rparr>"
  have eq: "subspan v offset count = Inr ?w"
    using assms p by (intro subspan_eq) auto
  have "elements mem ?w = take (nat (size_span ?w)) (drop (nat offset) (elements mem v))"
    using p by (intro elements_slice) auto
  with eq show "\<exists>w. subspan v offset count = Inr w \<and>
                 data_span w = data_span v + nat offset \<and>
                 size_span w = (if count = dynamic_extent then size_span v - offset else count) \<and>
                 elements mem w = take (nat (size_span w)) (drop (nat offset) (elements mem v))"
    by simp
  have "subspan_static offset count v = Inr \<lparr>storage_extent =
           (if count = dynamic_extent then extent_dynamic (size_span v - offset)
            else extent_fixed count),
           storage_data = data_span v + nat offset\<rparr>"
    using assms p by (intro subspan_static_eq) auto
  then show "\<exists>w. subspan_static offset count v = Inr w \<and>
                 data_span w = data_span v + nat offset \<and>
                 size_span w = (if count = dynamic_extent then size_span v - offset else count)"
    by simp
next
  have v: "0 \<le> size_span v"
    using assms by (simp add: valid_span_def)
  then have nd: "size_span v \<noteq> dynamic_extent"
    by (simp add: dynamic_extent_def)
  let ?w = "\<lparr>storage_extent = extent_dynamic (size_span v), storage_data = data_span v\<rparr>"
  have eq: "subspan v 0 (size_span v) = Inr ?w"
    using subspan_eq [OF assms, of 0 "size_span v"] v nd by simp
  have "elements mem ?w = take (nat (size_span ?w)) (drop 0 (elements mem v))"
    using v by (intro elements_slice) auto
  then show "\<exists>w. subspan v 0 (size_span v) = Inr w \<and> data_span w = data_span v \<and>
      size_span w = size_span v \<and> elements mem w = elements mem v"
    using eq by (simp add: length_elements)
qed

text \<open>
  Claim C5. \<^verbatim>\<open>v.subspan(offset, count)\<close> requires \<open>0 \<le> offset \<le> size()\<close> and (\<open>count\<close>
  is \<^verbatim>\<open>dynamic_extent\<close>, or \<open>0 \<le> count\<close> and \<open>offset + count \<le> size()\<close>). The check
  computes \<^verbatim>\<open>offset + count\<close> in \<^verbatim>\<open>index_type\<close>. For the view of five elements,
  \<open>offset = 1\<close> and \<open>count = PTRDIFF_MAX\<close> the requirement fails, since
  \<open>1 + PTRDIFF_MAX > 5\<close>, and the sum overflows: the behaviour of the C++ program is
  undefined, and with the wrapped sum the check passes. Both forms of \<^verbatim>\<open>subspan\<close> then
  return a view of \<open>PTRDIFF_MAX\<close> elements from address 1001 on, which does not lie within
  the view it was taken from.
\<close>

theorem subspan_overflow_unchecked:
  "size_span sample_view = 5 \<and>
   \<not> (1 + ptrdiff_max \<le> size_span sample_view) \<and>
   ptrdiff_t (1 + ptrdiff_max) = - (2 ^ 63) \<and>
   subspan sample_view 1 ptrdiff_max =
     Inr \<lparr>storage_extent = extent_dynamic ptrdiff_max, storage_data = 1001\<rparr> \<and>
   subspan_static 1 ptrdiff_max sample_view =
     Inr \<lparr>storage_extent = extent_fixed ptrdiff_max, storage_data = 1001\<rparr> \<and>
   \<not> contained \<lparr>storage_extent = extent_dynamic ptrdiff_max, storage_data = 1001\<rparr> sample_view"
proof -
  have m: "0 \<le> ptrdiff_max" "ptrdiff_max \<noteq> dynamic_extent" "well_formed_extent ptrdiff_max"
    "\<not> (1 + ptrdiff_max \<le> 5)"
    by (simp_all add: ptrdiff_max_def dynamic_extent_def well_formed_extent_def)
  have w: "ptrdiff_t (1 + ptrdiff_max) = - (2 ^ 63)" "ptrdiff_t (1 + ptrdiff_max) \<le> 5"
    by (simp_all add: ptrdiff_max_def ptrdiff_t_def)
  have p: "ptr_add 1000 1 = 1001"
    by (simp add: ptr_add_def)
  have a: "subspan sample_view 1 ptrdiff_max =
      Inr \<lparr>storage_extent = extent_dynamic ptrdiff_max, storage_data = 1001\<rparr>"
    using m w(2) p by (simp add: subspan_def span_ptr_count_dynamic sample_view_def nullptr_def)
  have b: "subspan_static 1 ptrdiff_max sample_view =
      Inr \<lparr>storage_extent = extent_fixed ptrdiff_max, storage_data = 1001\<rparr>"
    using m w(2) p
    by (simp add: subspan_static_def span_ptr_count_fixed sample_view_def nullptr_def)
  have c: "\<not> contained \<lparr>storage_extent = extent_dynamic ptrdiff_max, storage_data = 1001\<rparr>
      sample_view"
    by (simp add: contained_def sample_view_def ptrdiff_max_def)
  from m(4) w(1) a b c show ?thesis
    by (simp add: sample_view_def)
qed

text \<open>
  Claim C9. Each sub-view operation, in its run-time and its compile-time form, called
  under its precondition returns a view whose elements \<open>[data(), data() + size())\<close> lie
  within those of the view it is called on.
\<close>

theorem subview_contained:
  assumes "valid_span v"
  shows "(0 \<le> count \<and> count \<le> size_span v \<longrightarrow>
            (\<exists>w. first_span v count = Inr w \<and> contained w v \<and>
                 element_range w \<subseteq> element_range v) \<and>
            (\<exists>w. first_static count v = Inr w \<and> contained w v \<and>
                 element_range w \<subseteq> element_range v) \<and>
            (\<exists>w. last_span v count = Inr w \<and> contained w v \<and>
                 element_range w \<subseteq> element_range v) \<and>
            (\<exists>w. last_static count v = Inr w \<and> contained w v \<and>
                 element_range w \<subseteq> element_range v)) \<and>
         (0 \<le> offset \<and> offset \<le> size_span v \<and>
          (count = dynamic_extent \<or> 0 \<le> count \<and> offset + count \<le> size_span v) \<longrightarrow>
            (\<exists>w. subspan v offset count = Inr w \<and> contained w v \<and>
                 element_range w \<subseteq> element_range v) \<and>
            (\<exists>w. subspan_static offset count v = Inr w \<and> contained w v \<and>
                 element_range w \<subseteq> element_range v))"
proof (intro conjI impI)
  assume c: "0 \<le> count \<and> count \<le> size_span v"
  then have c0: "0 \<le> count" and c1: "count \<le> size_span v"
    by simp_all
  show "\<exists>w. first_span v count = Inr w \<and> contained w v \<and>
      element_range w \<subseteq> element_range v"
    using c by (auto simp: first_span_eq [OF assms c0 c1] contained_def element_range_def)
  show "\<exists>w. first_static count v = Inr w \<and> contained w v \<and>
      element_range w \<subseteq> element_range v"
    using c by (auto simp: first_static_eq [OF assms c0 c1] contained_def element_range_def)
  show "\<exists>w. last_span v count = Inr w \<and> contained w v \<and>
      element_range w \<subseteq> element_range v"
    using c by (auto simp: last_span_eq [OF assms c0 c1] contained_def element_range_def)
  show "\<exists>w. last_static count v = Inr w \<and> contained w v \<and>
      element_range w \<subseteq> element_range v"
    using c by (auto simp: last_static_eq [OF assms c0 c1] contained_def element_range_def)
next
  assume p: "0 \<le> offset \<and> offset \<le> size_span v \<and>
          (count = dynamic_extent \<or> 0 \<le> count \<and> offset + count \<le> size_span v)"
  then have p0: "0 \<le> offset" and p1: "offset \<le> size_span v"
    and p2: "count = dynamic_extent \<or> (0 \<le> count \<and> offset + count \<le> size_span v)"
    by simp_all
  show "\<exists>w. subspan v offset count = Inr w \<and> contained w v \<and>
      element_range w \<subseteq> element_range v"
    using p by (auto simp: subspan_eq [OF assms p0 p1 p2] contained_def element_range_def)
  show "\<exists>w. subspan_static offset count v = Inr w \<and> contained w v \<and>
      element_range w \<subseteq> element_range v"
    using p by (auto simp: subspan_static_eq [OF assms p0 p1 p2] contained_def element_range_def)
qed

theorem subview_contained_witness:
  "valid_span sample_view \<and>
   first_span sample_view 2 = Inr \<lparr>storage_extent = extent_dynamic 2, storage_data = 1000\<rparr> \<and>
   contained \<lparr>storage_extent = extent_dynamic 2, storage_data = 1000\<rparr> sample_view \<and>
   last_span sample_view 2 = Inr \<lparr>storage_extent = extent_dynamic 2, storage_data = 1003\<rparr> \<and>
   contained \<lparr>storage_extent = extent_dynamic 2, storage_data = 1003\<rparr> sample_view \<and>
   subspan sample_view 1 3 = Inr \<lparr>storage_extent = extent_dynamic 3, storage_data = 1001\<rparr> \<and>
   contained \<lparr>storage_extent = extent_dynamic 3, storage_data = 1001\<rparr> sample_view \<and>
   subspan sample_view 5 dynamic_extent =
     Inr \<lparr>storage_extent = extent_dynamic 0, storage_data = 1005\<rparr> \<and>
   contained \<lparr>storage_extent = extent_dynamic 0, storage_data = 1005\<rparr> sample_view \<and>
   element_range sample_view = {1000 ..< 1005}"
proof -
  have h: "(0::int) \<le> 2" "2 \<le> size_span sample_view" "(0::int) \<le> 1" "1 \<le> size_span sample_view"
    "(0::int) \<le> 5" "5 \<le> size_span sample_view"
    by (simp_all add: sample_view_def)
  have a: "first_span sample_view 2 =
      Inr \<lparr>storage_extent = extent_dynamic 2, storage_data = 1000\<rparr>"
    using first_span_eq [OF sample_view_valid h(1,2)] by (simp add: sample_view_def)
  have b: "last_span sample_view 2 =
      Inr \<lparr>storage_extent = extent_dynamic 2, storage_data = 1003\<rparr>"
    using last_span_eq [OF sample_view_valid h(1,2)] by (simp add: sample_view_def)
  have c: "subspan sample_view 1 3 =
      Inr \<lparr>storage_extent = extent_dynamic 3, storage_data = 1001\<rparr>"
    using subspan_eq [OF sample_view_valid h(3,4), of 3]
    by (simp add: sample_view_def not_dynamic_extent)
  have d: "subspan sample_view 5 dynamic_extent =
      Inr \<lparr>storage_extent = extent_dynamic 0, storage_data = 1005\<rparr>"
    using subspan_eq [OF sample_view_valid h(5,6), of dynamic_extent]
    by (simp add: sample_view_def)
  have r: "element_range sample_view = {1000 ..< 1005}"
    by (simp add: element_range_def sample_view_def)
  show ?thesis
    using sample_view_valid a b c d r
      subview_contained [OF sample_view_valid, of 2 1]
      subview_contained [OF sample_view_valid, of dynamic_extent 5]
    by (simp add: contained_def sample_view_def)
qed

end
